theory Spec2Isabelle
  imports Complex_Main
begin

section \<open>Bangalore Rent Optimizer: a shallow embedding of app.py\<close>

text \<open>
  The script loads a table of rental listings, keeps the rows of one city, gives each
  row approximate coordinates and three simulated attributes, filters the rows by
  two slider thresholds, scores them with a weighted formula, sorts them and renders
  the result. A data frame is modelled as the list of its rows in index order, each
  frame type as a record that extends the previous one by the columns the script adds.
\<close>

subsection \<open>Floating point values\<close>

text \<open>
  The columns the script computes are float64 arrays. The model keeps the real value
  of a finite float and the three special values that array division can produce;
  rounding, overflow and the sign of zero are not modelled (a zero divisor counts as
  positive zero). Array arithmetic never raises: a division by zero gives an infinity
  or NaN, as numpy does.
\<close>

datatype fnum = Fin real | PInf | NInf | NaN

fun isna :: "fnum \<Rightarrow> bool" where
  "isna NaN = True"
| "isna _ = False"

fun is_finite :: "fnum \<Rightarrow> bool" where
  "is_finite (Fin _) = True"
| "is_finite _ = False"

fun fadd :: "fnum \<Rightarrow> fnum \<Rightarrow> fnum" where
  "fadd (Fin a) (Fin b) = Fin (a + b)"
| "fadd NaN _ = NaN"
| "fadd _ NaN = NaN"
| "fadd PInf NInf = NaN"
| "fadd NInf PInf = NaN"
| "fadd PInf _ = PInf"
| "fadd _ PInf = PInf"
| "fadd NInf _ = NInf"
| "fadd _ NInf = NInf"

fun inf_times :: "bool \<Rightarrow> real \<Rightarrow> fnum" where
  "inf_times positive b =
     (if b = 0 then NaN else if (0 < b) = positive then PInf else NInf)"

fun fmul :: "fnum \<Rightarrow> fnum \<Rightarrow> fnum" where
  "fmul (Fin a) (Fin b) = Fin (a * b)"
| "fmul NaN _ = NaN"
| "fmul _ NaN = NaN"
| "fmul PInf (Fin b) = inf_times True b"
| "fmul NInf (Fin b) = inf_times False b"
| "fmul (Fin a) PInf = inf_times True a"
| "fmul (Fin a) NInf = inf_times False a"
| "fmul PInf PInf = PInf"
| "fmul NInf NInf = PInf"
| "fmul PInf NInf = NInf"
| "fmul NInf PInf = NInf"

fun fdiv :: "fnum \<Rightarrow> fnum \<Rightarrow> fnum" where
  "fdiv (Fin a) (Fin b) =
     (if b \<noteq> 0 then Fin (a / b)
      else if a = 0 then NaN else if 0 < a then PInf else NInf)"
| "fdiv NaN _ = NaN"
| "fdiv _ NaN = NaN"
| "fdiv (Fin a) _ = Fin 0"
| "fdiv PInf (Fin b) = (if 0 \<le> b then PInf else NInf)"
| "fdiv NInf (Fin b) = (if 0 \<le> b then NInf else PInf)"
| "fdiv _ _ = NaN"

fun fle :: "fnum \<Rightarrow> fnum \<Rightarrow> bool" where
  "fle (Fin a) (Fin b) = (a \<le> b)"
| "fle NaN _ = False"
| "fle _ NaN = False"
| "fle NInf _ = True"
| "fle _ PInf = True"
| "fle _ _ = False"

subsection \<open>Strings\<close>

text \<open>
  \<open>lower\<close> is \<open>str.lower\<close> on ASCII text, and \<open>py_in k s\<close> is Python's
  \<open>k in s\<close> on strings: \<open>k\<close> occurs in \<open>s\<close> as a contiguous piece. Characters
  outside ASCII are left as they are.
\<close>

definition lower_char :: "char \<Rightarrow> char" where
  "lower_char c =
     (let n = (of_char c :: nat)
      in if 65 \<le> n \<and> n \<le> 90 then char_of (n + 32) else c)"

definition lower :: "string \<Rightarrow> string" where
  "lower s = map lower_char s"

fun starts_with :: "string \<Rightarrow> string \<Rightarrow> bool" where
  "starts_with [] s = True"
| "starts_with (k # ks) [] = False"
| "starts_with (k # ks) (c # cs) = (k = c \<and> starts_with ks cs)"

fun py_in :: "string \<Rightarrow> string \<Rightarrow> bool" where
  "py_in k [] = (k = [])"
| "py_in k (c # cs) = (starts_with k (c # cs) \<or> py_in k cs)"

subsection \<open>The random number generator\<close>

text \<open>
  \<open>np.random\<close> is a global generator. Its state is passed explicitly; the generator
  itself is a parameter of the model, given by the three operations the script uses:
  \<open>np.random.seed\<close>, one unit sample (\<open>random_sample\<close>) and one bounded integer
  (\<open>randint low high\<close>). Nothing is assumed about it in the definitions; the library's
  documented ranges are the predicate \<open>np_contract\<close>, a hypothesis of the theorems
  that need it.
\<close>

record 'g np_random =
  seed :: "nat \<Rightarrow> 'g"
  random_sample :: "'g \<Rightarrow> real \<times> 'g"
  randint :: "int \<Rightarrow> int \<Rightarrow> 'g \<Rightarrow> int \<times> 'g"

definition np_contract :: "'g np_random \<Rightarrow> bool" where
  "np_contract R =
     ((\<forall>g. 0 \<le> fst (random_sample R g) \<and> fst (random_sample R g) < 1) \<and>
      (\<forall>low high g. low < high \<longrightarrow>
          low \<le> fst (randint R low high g) \<and> fst (randint R low high g) < high))"

text \<open>\<open>np.random.uniform(low, high)\<close> scales one unit sample.\<close>

definition uniform :: "'g np_random \<Rightarrow> real \<Rightarrow> real \<Rightarrow> 'g \<Rightarrow> real \<times> 'g" where
  "uniform R low high g =
     (case random_sample R g of (u, g') \<Rightarrow> (low + (high - low) * u, g'))"

text \<open>A draw with \<open>size=n\<close>: \<open>n\<close> successive draws.\<close>

fun draw_n :: "('g \<Rightarrow> 'a \<times> 'g) \<Rightarrow> nat \<Rightarrow> 'g \<Rightarrow> 'a list \<times> 'g" where
  "draw_n f 0 g = ([], g)"
| "draw_n f (Suc n) g =
     (case f g of (x, g1) \<Rightarrow>
        (case draw_n f n g1 of (xs, g2) \<Rightarrow> (x # xs, g2)))"

subsection \<open>Data frames\<close>

text \<open>
  The columns of the input file that the script reads; the file's other columns are
  carried along unchanged and play no part. \<open>Rent\<close> is a numeric column without
  missing values, and \<open>Area_Locality\<close> holds the text that \<open>str\<close> makes of
  the cell.
\<close>

record csv_row =
  Posted_On :: string
  BHK :: int
  Rent :: real
  Size :: int
  Area_Locality :: string
  City :: string
  Furnishing_Status :: string

record located_row = csv_row +
  lat :: fnum
  lon :: fnum

record enriched_row = located_row +
  Cafes :: real
  Safety_Score :: real
  Metro_Dist_KM :: real

record scored_row = enriched_row +
  Value_Score :: fnum

text \<open>Boolean indexing \<open>df[flags]\<close>: the rows whose flag is true, in order.\<close>

definition mask_rows :: "'a list \<Rightarrow> bool list \<Rightarrow> 'a list" where
  "mask_rows df flags = map fst (filter snd (zip df flags))"

subsection \<open>Step 1: loading and enriching the data\<close>

datatype py_error = ValueError | IndexError

datatype message = CsvNotFound | NoApartments int real

text \<open>The dictionary \<open>loc_map\<close>, in insertion order, which is its iteration order.\<close>

definition loc_map :: "(string \<times> real \<times> real) list" where
  "loc_map =
    [(''Koramangala'', 12.9345, 77.6186),
     (''HSR Layout'', 12.9121, 77.6446),
     (''Whitefield'', 12.9698, 77.7500),
     (''Indiranagar'', 12.9784, 77.6408),
     (''Jayanagar'', 12.9304, 77.5855),
     (''Marathahalli'', 12.9591, 77.6974),
     (''Electronic City'', 12.8399, 77.6770),
     (''BTM Layout'', 12.9166, 77.6101),
     (''Hebbal'', 13.0354, 77.5988),
     (''Yelahanka'', 13.1007, 77.5963),
     (''Bellandur'', 12.9260, 77.6762),
     (''Sarjapur'', 12.9237, 77.6546),
     (''Basavanagudi'', 12.9438, 77.5755),
     (''Malleswaram'', 13.0031, 77.5643)]"

text \<open>
  \<open>get_coords\<close>: the loop over the table returns at the first key found in the text,
  after two jitter draws (latitude first); with no key found it returns two NaNs and
  draws nothing.
\<close>

fun get_coords_loop ::
  "'g np_random \<Rightarrow> (string \<times> real \<times> real) list \<Rightarrow> string \<Rightarrow> 'g \<Rightarrow> (fnum \<times> fnum) \<times> 'g"
where
  "get_coords_loop R [] area_text g = ((NaN, NaN), g)"
| "get_coords_loop R ((key, la, lo) # rest) area_text g =
     (if py_in (lower key) (lower area_text)
      then (case uniform R (- 0.01) 0.01 g of (j1, g1) \<Rightarrow>
             (case uniform R (- 0.01) 0.01 g1 of (j2, g2) \<Rightarrow>
               ((Fin (la + j1), Fin (lo + j2)), g2)))
      else get_coords_loop R rest area_text g)"

definition get_coords :: "'g np_random \<Rightarrow> string \<Rightarrow> 'g \<Rightarrow> (fnum \<times> fnum) \<times> 'g" where
  "get_coords R area_text g = get_coords_loop R loc_map area_text g"

text \<open>\<open>Series.apply(get_coords)\<close>: row after row, each call on the state the last left.\<close>

fun apply_get_coords ::
  "'g np_random \<Rightarrow> string list \<Rightarrow> 'g \<Rightarrow> (fnum \<times> fnum) list \<times> 'g"
where
  "apply_get_coords R [] g = ([], g)"
| "apply_get_coords R (t # ts) g =
     (case get_coords R t g of (c, g1) \<Rightarrow>
        (case apply_get_coords R ts g1 of (cs, g2) \<Rightarrow> (c # cs, g2)))"

definition set_lat_lon :: "csv_row \<Rightarrow> fnum \<times> fnum \<Rightarrow> located_row" where
  "set_lat_lon r c = csv_row.extend r (located_row.fields (fst c) (snd c))"

definition set_simulated :: "located_row \<Rightarrow> real \<times> real \<times> real \<Rightarrow> enriched_row" where
  "set_simulated r v =
     located_row.extend r (enriched_row.fields (fst v) (fst (snd v)) (snd (snd v)))"

text \<open>
  Lines 50 to 53, on the rows of the one city: the coordinates of every row, then the
  rows without a latitude dropped. The unpacking of \<open>zip(*...)\<close> into two names
  raises ValueError when there is no row at all.
\<close>

definition locate ::
  "'g np_random \<Rightarrow> 'g \<Rightarrow> csv_row list \<Rightarrow> (py_error + located_row list) \<times> 'g"
where
  "locate R g df =
     (case apply_get_coords R (map Area_Locality df) g of (coords, g1) \<Rightarrow>
        if coords = [] then (Inl ValueError, g1)
        else (Inr (filter (\<lambda>r. \<not> isna (lat r)) (map2 set_lat_lon df coords)), g1))"

text \<open>
  Lines 58 to 62: \<open>np.random.seed(42)\<close> replaces the generator's state, whatever
  it was, and the three simulated columns are drawn from there, one after the other.
\<close>

definition simulate :: "'g np_random \<Rightarrow> located_row list \<Rightarrow> enriched_row list \<times> 'g" where
  "simulate R df =
     (let n = length df;
          g2 = seed R 42
      in (case draw_n (randint R 5 30) n g2 of (offsets, g3) \<Rightarrow>
           (case draw_n (uniform R 6.5 9.8) n g3 of (safety, g4) \<Rightarrow>
             (case draw_n (uniform R 0.5 10.0) n g4 of (metro, g5) \<Rightarrow>
               (let cafes = map2 (\<lambda>r k. Rent r / 1500 + of_int k) df offsets
                in (map2 set_simulated df (zip cafes (zip safety metro)), g5))))))"

definition enrich ::
  "'g np_random \<Rightarrow> 'g \<Rightarrow> csv_row list \<Rightarrow> (py_error + enriched_row list) \<times> 'g"
where
  "enrich R g df =
     (case locate R g df of
        (Inl e, g1) \<Rightarrow> (Inl e, g1)
      | (Inr located, g1) \<Rightarrow>
          (case simulate R located of (out, g5) \<Rightarrow> (Inr out, g5)))"

datatype widget =
    StError message
  | SetPageConfig
  | StTitle
  | StMarkdown
  | SidebarHeader
  | SidebarSlider string
  | SidebarSubheader
  | StColumns nat
  | Metric_Area string
  | Metric_Rent real
  | Metric_Score fnum
  | Subheader string
  | ScatterChart "scored_row list"
  | MapChart "scored_row list"
  | DetailTable "scored_row list"

text \<open>
  \<open>load_data\<close>: the file is \<open>None\<close> when \<open>read_csv\<close> raises FileNotFoundError.
  The result is what the function shows, what it returns or raises, and the state it
  leaves the generator in. The \<open>st.cache_data\<close> decorator, which reuses the result
  of an earlier call, is not modelled: every run calls the function.
\<close>

definition load_data ::
  "'g np_random \<Rightarrow> 'g \<Rightarrow> csv_row list option
     \<Rightarrow> widget list \<times> (py_error + enriched_row list) \<times> 'g"
where
  "load_data R g file =
     (case file of
        None \<Rightarrow> ([StError CsvNotFound], Inr [], g)
      | Some csv \<Rightarrow>
          (let df = mask_rows csv (map (\<lambda>r. City r = ''Bangalore'') csv)
           in (case enrich R g df of (res, g') \<Rightarrow> ([], res, g'))))"

subsection \<open>Step 2: the slider values\<close>

text \<open>
  The four sidebar sliders return the user's choices; they are the inputs of a run.
  \<open>slider_ranges\<close> states the bounds the sliders are created with.
\<close>

record prefs =
  budget :: int
  min_safety :: real
  w_cafe :: real
  w_metro :: real

definition slider_ranges :: "prefs \<Rightarrow> bool" where
  "slider_ranges p =
     (5000 \<le> budget p \<and> budget p \<le> 100000 \<and>
      1.0 \<le> min_safety p \<and> min_safety p \<le> 10.0 \<and>
      0.0 \<le> w_cafe p \<and> w_cafe p \<le> 1.0 \<and>
      0.0 \<le> w_metro p \<and> w_metro p \<le> 1.0)"

subsection \<open>Step 3: filter, score, sort\<close>

text \<open>Line 89: the conjunction of two boolean columns indexes the frame.\<close>

definition preference_filter :: "int \<Rightarrow> real \<Rightarrow> enriched_row list \<Rightarrow> enriched_row list" where
  "preference_filter max_rent safety df =
     mask_rows df
       (map2 (\<and>) (map (\<lambda>r. Rent r \<le> of_int max_rent) df)
                 (map (\<lambda>r. safety \<le> Safety_Score r) df))"

text \<open>
  Lines 93 to 96, column by column as the script computes them: the amenity column
  times its weight, plus the inverse distance column times 100 times its weight, all
  divided by the rent column over 1000.
\<close>

definition value_score_column :: "real \<Rightarrow> real \<Rightarrow> enriched_row list \<Rightarrow> fnum list" where
  "value_score_column wc wm df =
     map2 fdiv
       (map2 fadd
          (map (\<lambda>c. fmul (Fin c) (Fin wc)) (map Cafes df))
          (map (\<lambda>x. fmul x (Fin wm))
             (map (\<lambda>x. fmul x (Fin 100))
                (map (\<lambda>d. fdiv (Fin 1) (Fin d)) (map Metro_Dist_KM df)))))
       (map (\<lambda>p. fdiv (Fin p) (Fin 1000)) (map Rent df))"

definition set_value_score :: "enriched_row \<Rightarrow> fnum \<Rightarrow> scored_row" where
  "set_value_score r v = enriched_row.extend r (scored_row.fields v)"

definition add_value_score :: "real \<Rightarrow> real \<Rightarrow> enriched_row list \<Rightarrow> scored_row list" where
  "add_value_score wc wm df = map2 set_value_score df (value_score_column wc wm df)"

text \<open>The score of one row, for stating results row by row.\<close>

definition value_score :: "real \<Rightarrow> real \<Rightarrow> enriched_row \<Rightarrow> fnum" where
  "value_score wc wm r = hd (value_score_column wc wm [r])"

text \<open>
  Line 99 calls the library's \<open>sort_values\<close> with \<open>by='Value_Score'\<close> and
  \<open>ascending=False\<close>, and names no sorting algorithm. The library function is a
  parameter of the model, called with the column and the direction the script passes
  to it; nothing is assumed of what it returns.
\<close>

type_synonym sort_values = "(scored_row \<Rightarrow> fnum) \<Rightarrow> bool \<Rightarrow> scored_row list \<Rightarrow> scored_row list"

text \<open>Lines 93 to 99 together: the score column is added, then the frame is sorted.\<close>

definition score_and_sort ::
  "sort_values \<Rightarrow> real \<Rightarrow> real \<Rightarrow> enriched_row list \<Rightarrow> scored_row list"
where
  "score_and_sort srt wc wm df = srt Value_Score False (add_value_score wc wm df)"

subsection \<open>The script\<close>

datatype outcome = Raised py_error | Stopped | NoMatch | Rendered

text \<open>
  What a run leaves behind: the widgets shown, in order; how the run ended; and the
  two frames of step 3, \<open>None\<close> when the statement that computes them was not reached.
\<close>

record run =
  ui :: "widget list"
  outcome :: outcome
  filtered_df :: "enriched_row list option"
  ranked :: "scored_row list option"

definition app ::
  "'g np_random \<Rightarrow> sort_values \<Rightarrow> 'g \<Rightarrow> csv_row list option \<Rightarrow> prefs \<Rightarrow> run"
where
  "app R srt g file p =
     (case load_data R g file of
        (shown, Inl e, g') \<Rightarrow>
          \<lparr>ui = shown, outcome = Raised e, filtered_df = None, ranked = None\<rparr>
      | (shown, Inr df, g') \<Rightarrow>
          (let ui1 = shown @ [SetPageConfig, StTitle, StMarkdown]
           in if df = [] then
                \<lparr>ui = ui1, outcome = Stopped, filtered_df = None, ranked = None\<rparr>
              else
                (let ui2 = ui1 @
                       [SidebarHeader,
                        SidebarSlider ''Max Budget'',
                        SidebarSlider ''Minimum Safety Score (1-10)'',
                        SidebarSubheader,
                        SidebarSlider ''Importance of Cafes'',
                        SidebarSlider ''Importance of Metro Proximity''];
                     flt = preference_filter (budget p) (min_safety p) df
                 in if flt \<noteq> [] then
                      (let sorted_df = score_and_sort srt (w_cafe p) (w_metro p) flt
                       in (case sorted_df of
                             [] \<Rightarrow>
                               \<lparr>ui = ui2, outcome = Raised IndexError,
                                filtered_df = Some flt, ranked = Some sorted_df\<rparr>
                           | best_match # rest \<Rightarrow>
                               \<lparr>ui = ui2 @
                                  [StColumns 3,
                                   Metric_Area (Area_Locality best_match),
                                   Metric_Rent (Rent best_match),
                                   Metric_Score (Value_Score best_match),
                                   StColumns 2,
                                   Subheader ''Rent vs. Value Analysis'',
                                   ScatterChart sorted_df,
                                   Subheader ''Interactive Map'',
                                   MapChart sorted_df,
                                   Subheader ''Detailed Listings'',
                                   DetailTable sorted_df],
                                outcome = Rendered,
                                filtered_df = Some flt, ranked = Some sorted_df\<rparr>))
                    else
                      \<lparr>ui = ui2 @ [StError (NoApartments (budget p) (min_safety p))],
                       outcome = NoMatch, filtered_df = Some flt, ranked = None\<rparr>)))"

subsection \<open>Notions used to state the results\<close>

text \<open>
  A text contains a key case-insensitively when the lowered key is a contiguous piece
  of the lowered text; the first match of a text is the first table entry, in table
  order, whose key the text contains.
\<close>

definition contains_ci :: "string \<Rightarrow> string \<Rightarrow> bool" where
  "contains_ci area_text key = (\<exists>pre suf. lower area_text = pre @ lower key @ suf)"

definition first_match :: "string \<Rightarrow> (string \<times> real \<times> real) option" where
  "first_match area_text = find (\<lambda>(key, la, lo). contains_ci area_text key) loc_map"

text \<open>Everything of an enriched row but its two coordinates.\<close>

definition non_jitter :: "enriched_row \<Rightarrow> csv_row \<times> real \<times> real \<times> real" where
  "non_jitter e = (csv_row.truncate e, Cafes e, Safety_Score e, Metro_Dist_KM e)"

text \<open>
  A located row that comes from a row of the input: its text has a first match, and
  its coordinates are that entry's plus one jitter draw each.
\<close>

definition resolved :: "'g np_random \<Rightarrow> csv_row \<Rightarrow> located_row \<Rightarrow> bool" where
  "resolved R r l =
     (\<exists>key la lo g1 g2. first_match (Area_Locality r) = Some (key, la, lo) \<and>
        l = set_lat_lon r (Fin (la + fst (uniform R (- 0.01) 0.01 g1)),
                           Fin (lo + fst (uniform R (- 0.01) 0.01 g2))))"

text \<open>The three columns drawn after the seed is set, for a frame of \<open>n\<close> rows.\<close>

definition seeded_draws :: "'g np_random \<Rightarrow> nat \<Rightarrow> int list \<times> real list \<times> real list" where
  "seeded_draws R n =
     (case draw_n (randint R 5 30) n (seed R 42) of (offsets, g3) \<Rightarrow>
        (case draw_n (uniform R 6.5 9.8) n g3 of (safety, g4) \<Rightarrow>
           (case draw_n (uniform R 0.5 10.0) n g4 of (metro, g5) \<Rightarrow>
              (offsets, safety, metro))))"

subsection \<open>Instances for evaluation\<close>

text \<open>
  Two small generators that keep the library's ranges: one steps through its states,
  one returns the same sample and the same integer at every draw.
\<close>

definition counter_rng :: "nat np_random" where
  "counter_rng =
     \<lparr>seed = (\<lambda>n. n),
      random_sample = (\<lambda>g. (real (g mod 10) / 10, Suc g)),
      randint = (\<lambda>low high g. (low + int g mod (high - low), Suc g))\<rparr>"

definition const_rng :: "real \<Rightarrow> int \<Rightarrow> unit np_random" where
  "const_rng u k =
     \<lparr>seed = (\<lambda>n. ()),
      random_sample = (\<lambda>g. (u, g)),
      randint = (\<lambda>low high g. (if low \<le> k \<and> k < high then k else low, g))\<rparr>"

text \<open>
  A sorting function to run the script with: an insertion sort on the given column in
  the given direction, rows without a value last.
\<close>

definition goes_before :: "bool \<Rightarrow> fnum \<Rightarrow> fnum \<Rightarrow> bool" where
  "goes_before ascending a b =
     (isna b \<or> (\<not> isna a \<and> (if ascending then fle a b else fle b a)))"

fun insert_row ::
  "(scored_row \<Rightarrow> fnum) \<Rightarrow> bool \<Rightarrow> scored_row \<Rightarrow> scored_row list \<Rightarrow> scored_row list"
where
  "insert_row col ascending x [] = [x]"
| "insert_row col ascending x (y # ys) =
     (if goes_before ascending (col x) (col y) then x # y # ys
      else y # insert_row col ascending x ys)"

fun stable_sort_values :: sort_values where
  "stable_sort_values col ascending [] = []"
| "stable_sort_values col ascending (x # xs) =
     insert_row col ascending x (stable_sort_values col ascending xs)"

text \<open>Sample rows and slider values.\<close>

definition listing :: "string \<Rightarrow> string \<Rightarrow> real \<Rightarrow> csv_row" where
  "listing city area rent =
     \<lparr>Posted_On = ''2022-05-18'', BHK = 2, Rent = rent, Size = 1000,
      Area_Locality = area, City = city, Furnishing_Status = ''Furnished''\<rparr>"

definition enriched_listing :: "string \<Rightarrow> real \<Rightarrow> real \<Rightarrow> real \<Rightarrow> real \<Rightarrow> enriched_row" where
  "enriched_listing area rent cafes safety metro =
     set_simulated
       (set_lat_lon (listing ''Bangalore'' area rent) (Fin 12.9345, Fin 77.6186))
       (cafes, safety, metro)"

text \<open>
  A small input file, its rows of the one city, and what the stepping generator makes
  of them when the call starts in state \<open>g\<close>.
\<close>

definition sample_csv :: "csv_row list" where
  "sample_csv =
     [listing ''Bangalore'' ''Koramangala Cross'' 30000,
      listing ''Mumbai'' ''Koramangala'' 20000,
      listing ''Bangalore'' ''Nowhere'' 30000,
      listing ''Bangalore'' ''near hebbal lake'' 15000]"

definition sample_city :: "csv_row list" where
  "sample_city =
     [listing ''Bangalore'' ''Koramangala Cross'' 30000,
      listing ''Bangalore'' ''Nowhere'' 30000,
      listing ''Bangalore'' ''near hebbal lake'' 15000]"

definition sample_enriched :: "nat \<Rightarrow> enriched_row list" where
  "sample_enriched g =
     [set_simulated
        (set_lat_lon (listing ''Bangalore'' ''Koramangala Cross'' 30000)
           (Fin (12.9345 + (- 0.01 + 0.02 * (real (g mod 10) / 10))),
            Fin (77.6186 + (- 0.01 + 0.02 * (real (Suc g mod 10) / 10)))))
        (42, 7.82, 6.2),
      set_simulated
        (set_lat_lon (listing ''Bangalore'' ''near hebbal lake'' 15000)
           (Fin (13.0354 + (- 0.01 + 0.02 * (real (Suc (Suc g) mod 10) / 10))),
            Fin (77.5988 + (- 0.01 + 0.02 * (real (Suc (Suc (Suc g)) mod 10) / 10)))))
        (33, 8.15, 7.15)]"

definition default_prefs :: prefs where
  "default_prefs = \<lparr>budget = 35000, min_safety = 7.0, w_cafe = 0.5, w_metro = 0.8\<rparr>"

text \<open>
  The row of the specification's scenario, the same row at transit distance 0, and two
  rows that score the same.
\<close>

definition scenario_row :: enriched_row where
  "scenario_row = enriched_listing ''Koramangala Cross'' 30000 20 8.0 2.0"

definition zero_distance_row :: enriched_row where
  "zero_distance_row = enriched_listing ''Koramangala Cross'' 30000 20 8.0 0"

definition tie_rows :: "enriched_row list" where
  "tie_rows =
     [enriched_listing ''Koramangala'' 20000 20 8.0 2.0,
      enriched_listing ''Hebbal'' 20000 20 8.0 2.0]"

section \<open>Properties\<close>

subsection \<open>The preference filter\<close>

lemma mask_rows_map: "mask_rows df (map P df) = filter P df"
  by (induction df) (simp_all add: mask_rows_def)

lemma preference_filter_eq:
  "preference_filter max_rent safety df =
     filter (\<lambda>r. Rent r \<le> of_int max_rent \<and> safety \<le> Safety_Score r) df"
proof -
  have "map2 (\<and>) (map (\<lambda>r. Rent r \<le> of_int max_rent) df)
                 (map (\<lambda>r. safety \<le> Safety_Score r) df)
        = map (\<lambda>r. Rent r \<le> of_int max_rent \<and> safety \<le> Safety_Score r) df"
    by (induction df) simp_all
  then show ?thesis
    by (simp add: preference_filter_def mask_rows_map)
qed

text \<open>
  C2. A row is in the filtered frame exactly when it is in the enriched frame, its
  rent is at most the maximum and its safety score is at least the minimum.
\<close>

theorem preference_filter_subset:
  "r \<in> set (preference_filter max_rent safety df) \<longleftrightarrow>
     r \<in> set df \<and> Rent r \<le> of_int max_rent \<and> safety \<le> Safety_Score r"
  by (simp add: preference_filter_eq)


subsection \<open>Strings and draws\<close>

lemma starts_with_iff: "starts_with k s \<longleftrightarrow> (\<exists>suf. s = k @ suf)"
  by (induction k s rule: starts_with.induct) auto

lemma py_in_iff: "py_in k s \<longleftrightarrow> (\<exists>pre suf. s = pre @ k @ suf)"
proof (induction s)
  case Nil
  then show ?case by auto
next
  case (Cons c cs)
  show ?case
  proof
    assume "py_in k (c # cs)"
    then consider "starts_with k (c # cs)" | "py_in k cs" by auto
    then show "\<exists>pre suf. c # cs = pre @ k @ suf"
    proof cases
      case 1
      then obtain suf where "c # cs = k @ suf" using starts_with_iff by blast
      then have "c # cs = [] @ k @ suf" by simp
      then show ?thesis by blast
    next
      case 2
      then obtain pre suf where "cs = pre @ k @ suf" using Cons.IH by blast
      then have "c # cs = (c # pre) @ k @ suf" by simp
      then show ?thesis by blast
    qed
  next
    assume "\<exists>pre suf. c # cs = pre @ k @ suf"
    then obtain pre suf where eq: "c # cs = pre @ k @ suf" by blast
    show "py_in k (c # cs)"
    proof (cases pre)
      case Nil
      then have "starts_with k (c # cs)" using eq starts_with_iff by auto
      then show ?thesis by simp
    next
      case (Cons a pre')
      then have "cs = pre' @ k @ suf" using eq by simp
      then have "py_in k cs" using Cons.IH by blast
      then show ?thesis by simp
    qed
  qed
qed

lemma uniform_bounds:
  assumes "np_contract R" and "low \<le> high"
  shows "low \<le> fst (uniform R low high g) \<and> fst (uniform R low high g) \<le> high"
proof -
  obtain u g' where u: "random_sample R g = (u, g')" by (cases "random_sample R g")
  have "0 \<le> u \<and> u < 1" using assms(1) u unfolding np_contract_def by (metis fst_conv)
  moreover have "fst (uniform R low high g) = low + (high - low) * u"
    by (simp add: uniform_def u)
  moreover have "0 \<le> (high - low) * u" using assms(2) calculation(1) by simp
  moreover have "(high - low) * u \<le> (high - low) * 1"
    using assms(2) calculation(1) by (intro mult_left_mono) auto
  ultimately show ?thesis by simp
qed

lemma randint_bounds:
  assumes "np_contract R" and "low < high"
  shows "low \<le> fst (randint R low high g) \<and> fst (randint R low high g) < high"
  using assms unfolding np_contract_def by blast

lemma length_draw_n: "length (fst (draw_n f n g)) = n"
proof (induction n arbitrary: g)
  case 0
  then show ?case by simp
next
  case (Suc n)
  obtain y g1 where y: "f g = (y, g1)" by (cases "f g")
  obtain ys g2 where ys: "draw_n f n g1 = (ys, g2)" by (cases "draw_n f n g1")
  have "length ys = n" using Suc.IH [of g1] ys by simp
  then show ?case using y ys by simp
qed

lemma set_draw_n: "x \<in> set (fst (draw_n f n g)) \<Longrightarrow> \<exists>g0. x = fst (f g0)"
proof (induction n arbitrary: g)
  case 0
  then show ?case by simp
next
  case (Suc n)
  obtain y g1 where y: "f g = (y, g1)" by (cases "f g")
  obtain ys g2 where ys: "draw_n f n g1 = (ys, g2)" by (cases "draw_n f n g1")
  from Suc.prems y ys have "x = y \<or> x \<in> set ys" by simp
  then show ?case
  proof
    assume "x = y"
    then have "x = fst (f g)" using y by simp
    then show ?thesis by blast
  next
    assume "x \<in> set ys"
    then have "x \<in> set (fst (draw_n f n g1))" using ys by simp
    then show ?thesis using Suc.IH by blast
  qed
qed

subsection \<open>Locating the rows\<close>

lemma contains_ci_code: "contains_ci area_text key \<longleftrightarrow> py_in (lower key) (lower area_text)"
  by (simp add: contains_ci_def py_in_iff)

lemma get_coords_loop_find:
  "get_coords_loop R tbl area_text g =
     (case find (\<lambda>(key, la, lo). contains_ci area_text key) tbl of
        None \<Rightarrow> ((NaN, NaN), g)
      | Some (key, la, lo) \<Rightarrow>
          ((Fin (la + fst (uniform R (- 0.01) 0.01 g)),
            Fin (lo + fst (uniform R (- 0.01) 0.01 (snd (uniform R (- 0.01) 0.01 g))))),
           snd (uniform R (- 0.01) 0.01 (snd (uniform R (- 0.01) 0.01 g)))))"
  by (induction tbl) (auto simp: contains_ci_code split: prod.splits)

lemma get_coords_first_match:
  "get_coords R area_text g =
     (case first_match area_text of
        None \<Rightarrow> ((NaN, NaN), g)
      | Some (key, la, lo) \<Rightarrow>
          ((Fin (la + fst (uniform R (- 0.01) 0.01 g)),
            Fin (lo + fst (uniform R (- 0.01) 0.01 (snd (uniform R (- 0.01) 0.01 g))))),
           snd (uniform R (- 0.01) 0.01 (snd (uniform R (- 0.01) 0.01 g)))))"
  by (simp add: get_coords_def first_match_def get_coords_loop_find)

lemma length_apply_get_coords: "length (fst (apply_get_coords R ts g)) = length ts"
proof (induction ts arbitrary: g)
  case Nil
  then show ?case by simp
next
  case (Cons t ts)
  obtain c g1 where c: "get_coords R t g = (c, g1)" by (cases "get_coords R t g")
  obtain cs g2 where cs: "apply_get_coords R ts g1 = (cs, g2)"
    by (cases "apply_get_coords R ts g1")
  have "length cs = length ts" using Cons.IH [of g1] cs by simp
  then show ?case using c cs by simp
qed

lemma kept_rows:
  "list_all2 (resolved R)
     (filter (\<lambda>r. first_match (Area_Locality r) \<noteq> None) df)
     (filter (\<lambda>r. \<not> isna (lat r))
        (map2 set_lat_lon df (fst (apply_get_coords R (map Area_Locality df) g))))"
proof (induction df arbitrary: g)
  case Nil
  then show ?case by simp
next
  case (Cons r df)
  obtain c g1 where c: "get_coords R (Area_Locality r) g = (c, g1)"
    by (cases "get_coords R (Area_Locality r) g")
  obtain cs g2 where cs: "apply_get_coords R (map Area_Locality df) g1 = (cs, g2)"
    by (cases "apply_get_coords R (map Area_Locality df) g1")
  have IH: "list_all2 (resolved R)
     (filter (\<lambda>r. first_match (Area_Locality r) \<noteq> None) df)
     (filter (\<lambda>r. \<not> isna (lat r)) (map2 set_lat_lon df cs))"
    using Cons.IH [of g1] cs by simp
  have lat: "lat (set_lat_lon r c) = fst c"
    by (simp add: set_lat_lon_def csv_row.defs located_row.defs)
  show ?case
  proof (cases "first_match (Area_Locality r)")
    case None
    then have "c = (NaN, NaN)" using c by (simp add: get_coords_first_match)
    then show ?thesis using None c cs IH lat by simp
  next
    case (Some m)
    obtain key la lo where m: "m = (key, la, lo)" by (cases m)
    have ceq: "c = (Fin (la + fst (uniform R (- 0.01) 0.01 g)),
            Fin (lo + fst (uniform R (- 0.01) 0.01 (snd (uniform R (- 0.01) 0.01 g)))))"
      using c Some m by (simp add: get_coords_first_match)
    then have "resolved R r (set_lat_lon r c)"
      unfolding resolved_def using Some m by blast
    moreover have "\<not> isna (lat (set_lat_lon r c))" using lat ceq by simp
    ultimately show ?thesis using Some m c cs IH by simp
  qed
qed

lemma locate_cases:
  "locate R g df =
     (if df = [] then (Inl ValueError, g)
      else (Inr (filter (\<lambda>r. \<not> isna (lat r))
                  (map2 set_lat_lon df (fst (apply_get_coords R (map Area_Locality df) g)))),
            snd (apply_get_coords R (map Area_Locality df) g)))"
proof -
  obtain cs g1 where cs: "apply_get_coords R (map Area_Locality df) g = (cs, g1)"
    by (cases "apply_get_coords R (map Area_Locality df) g")
  have "length cs = length df" using length_apply_get_coords [of R "map Area_Locality df" g] cs by simp
  then have "cs = [] \<longleftrightarrow> df = []" by auto
  moreover have "df = [] \<Longrightarrow> g1 = g" using cs by simp
  ultimately show ?thesis using cs by (auto simp: locate_def)
qed

subsection \<open>The simulated columns\<close>

lemma simulate_seeded:
  "fst (simulate R df) =
     (case seeded_draws R (length df) of (offsets, safety, metro) \<Rightarrow>
        map2 set_simulated df
          (zip (map2 (\<lambda>r k. Rent r / 1500 + of_int k) df offsets) (zip safety metro)))"
  by (simp add: simulate_def seeded_draws_def Let_def split: prod.splits)

lemma seeded_draws_props:
  assumes "seeded_draws R n = (offsets, safety, metro)"
  shows "length offsets = n \<and> length safety = n \<and> length metro = n \<and>
         (\<forall>k \<in> set offsets. \<exists>g0. k = fst (randint R 5 30 g0)) \<and>
         (\<forall>s \<in> set safety. \<exists>g0. s = fst (uniform R 6.5 9.8 g0)) \<and>
         (\<forall>m \<in> set metro. \<exists>g0. m = fst (uniform R 0.5 10.0 g0))"
proof -
  obtain g3 where a: "draw_n (randint R 5 30) n (seed R 42) = (offsets, g3)"
    using assms by (auto simp: seeded_draws_def split: prod.splits)
  obtain g4 where b: "draw_n (uniform R 6.5 9.8) n g3 = (safety, g4)"
    using assms a by (auto simp: seeded_draws_def split: prod.splits)
  obtain g5 where c: "draw_n (uniform R 0.5 10.0) n g4 = (metro, g5)"
    using assms a b by (auto simp: seeded_draws_def split: prod.splits)
  have "length offsets = n" using length_draw_n [of "randint R 5 30" n "seed R 42"] a by simp
  moreover have "length safety = n" using length_draw_n [of "uniform R 6.5 9.8" n g3] b by simp
  moreover have "length metro = n" using length_draw_n [of "uniform R 0.5 10.0" n g4] c by simp
  moreover have "\<forall>k \<in> set offsets. \<exists>g0. k = fst (randint R 5 30 g0)"
    using set_draw_n [of _ "randint R 5 30" n "seed R 42"] a by simp
  moreover have "\<forall>s \<in> set safety. \<exists>g0. s = fst (uniform R 6.5 9.8 g0)"
    using set_draw_n [of _ "uniform R 6.5 9.8" n g3] b by simp
  moreover have "\<forall>m \<in> set metro. \<exists>g0. m = fst (uniform R 0.5 10.0 g0)"
    using set_draw_n [of _ "uniform R 0.5 10.0" n g4] c by simp
  ultimately show ?thesis by blast
qed

lemma length_simulate: "length (fst (simulate R df)) = length df"
proof -
  obtain offsets safety metro where d: "seeded_draws R (length df) = (offsets, safety, metro)"
    by (cases "seeded_draws R (length df)")
  from seeded_draws_props [OF d] show ?thesis by (simp add: simulate_seeded d)
qed

lemma simulate_nth:
  assumes "seeded_draws R (length df) = (offsets, safety, metro)" and "i < length df"
  shows "fst (simulate R df) ! i =
           set_simulated (df ! i)
             (Rent (df ! i) / 1500 + of_int (offsets ! i), safety ! i, metro ! i)"
proof -
  from seeded_draws_props [OF assms(1)]
  have "length offsets = length df" "length safety = length df" "length metro = length df"
    by simp_all
  then show ?thesis using assms(2) by (simp add: simulate_seeded assms(1))
qed

lemma non_jitter_set_simulated:
  "non_jitter (set_simulated l (c, s, m)) = (csv_row.truncate l, c, s, m)"
  by (simp add: non_jitter_def set_simulated_def csv_row.defs located_row.defs enriched_row.defs)

lemma Rent_truncate: "Rent (csv_row.truncate l) = Rent l"
  by (simp add: csv_row.defs)

lemma simulate_non_jitter:
  assumes "map csv_row.truncate df = map csv_row.truncate df'"
  shows "map non_jitter (fst (simulate R df)) = map non_jitter (fst (simulate R df'))"
proof -
  have len: "length df = length df'" using assms by (metis length_map)
  obtain offsets safety metro where d: "seeded_draws R (length df) = (offsets, safety, metro)"
    by (cases "seeded_draws R (length df)")
  have d': "seeded_draws R (length df') = (offsets, safety, metro)" using d len by simp
  show ?thesis
  proof (rule nth_equalityI)
    show "length (map non_jitter (fst (simulate R df))) =
          length (map non_jitter (fst (simulate R df')))"
      by (simp add: length_simulate len)
  next
    fix i assume "i < length (map non_jitter (fst (simulate R df)))"
    then have i: "i < length df" by (simp add: length_simulate)
    then have i': "i < length df'" using len by simp
    have t: "csv_row.truncate (df ! i) = csv_row.truncate (df' ! i)"
      using assms i i' by (metis nth_map)
    then have "Rent (df ! i) = Rent (df' ! i)" by (metis Rent_truncate)
    then show "map non_jitter (fst (simulate R df)) ! i =
          map non_jitter (fst (simulate R df')) ! i"
      using i i' t
      by (simp add: length_simulate simulate_nth [OF d] simulate_nth [OF d']
          non_jitter_set_simulated)
  qed
qed

lemma truncate_set_lat_lon: "csv_row.truncate (set_lat_lon r c) = r"
  by (simp add: set_lat_lon_def csv_row.defs located_row.defs)

lemma resolved_truncate: "list_all2 (resolved R) rs ls \<Longrightarrow> map csv_row.truncate ls = rs"
  by (induction rule: list_all2_induct) (auto simp: resolved_def truncate_set_lat_lon)

lemma enrich_cases:
  "enrich R g df =
     (if df = [] then (Inl ValueError, g)
      else (Inr (fst (simulate R
              (filter (\<lambda>r. \<not> isna (lat r))
                (map2 set_lat_lon df (fst (apply_get_coords R (map Area_Locality df) g)))))),
            snd (simulate R
              (filter (\<lambda>r. \<not> isna (lat r))
                (map2 set_lat_lon df (fst (apply_get_coords R (map Area_Locality df) g)))))))"
  by (simp add: enrich_def locate_cases split: prod.splits)

lemma enrich_reproducible:
  "map_sum id (map non_jitter) (fst (enrich R g df)) =
   map_sum id (map non_jitter) (fst (enrich R g' df))"
proof (cases "df = []")
  case True
  then show ?thesis by (simp add: enrich_cases)
next
  case False
  have "map csv_row.truncate (filter (\<lambda>r. \<not> isna (lat r))
          (map2 set_lat_lon df (fst (apply_get_coords R (map Area_Locality df) g)))) =
        map csv_row.truncate (filter (\<lambda>r. \<not> isna (lat r))
          (map2 set_lat_lon df (fst (apply_get_coords R (map Area_Locality df) g'))))"
    using resolved_truncate [OF kept_rows [of R df g]] resolved_truncate [OF kept_rows [of R df g']]
    by simp
  from simulate_non_jitter [OF this] show ?thesis using False by (simp add: enrich_cases)
qed

lemma set_simulated_fields:
  "Cafes (set_simulated l (c, s, m)) = c"
  "Safety_Score (set_simulated l (c, s, m)) = s"
  "Metro_Dist_KM (set_simulated l (c, s, m)) = m"
  "Rent (set_simulated l v) = Rent l"
  "Area_Locality (set_simulated l v) = Area_Locality l"
  "lat (set_simulated l v) = lat l"
  "lon (set_simulated l v) = lon l"
  "located_row.truncate (set_simulated l v) = l"
  by (simp_all add: set_simulated_def located_row.defs enriched_row.defs)

lemma set_lat_lon_fields:
  "lat (set_lat_lon r c) = fst c"
  "lon (set_lat_lon r c) = snd c"
  "Rent (set_lat_lon r c) = Rent r"
  "Area_Locality (set_lat_lon r c) = Area_Locality r"
  by (simp_all add: set_lat_lon_def csv_row.defs located_row.defs)

lemma simulate_row:
  assumes "e \<in> set (fst (simulate R ls))"
  shows "\<exists>l gk gs gm. l \<in> set ls \<and>
           e = set_simulated l
                 (Rent l / 1500 + of_int (fst (randint R 5 30 gk)),
                  fst (uniform R 6.5 9.8 gs), fst (uniform R 0.5 10.0 gm))"
proof -
  obtain offsets safety metro where d: "seeded_draws R (length ls) = (offsets, safety, metro)"
    by (cases "seeded_draws R (length ls)")
  note p = seeded_draws_props [OF d]
  from assms obtain i where i: "i < length ls" and e: "e = fst (simulate R ls) ! i"
    by (metis in_set_conv_nth length_simulate)
  have "offsets ! i \<in> set offsets" "safety ! i \<in> set safety" "metro ! i \<in> set metro"
    using p i by simp_all
  then obtain gk gs gm where
    "offsets ! i = fst (randint R 5 30 gk)"
    "safety ! i = fst (uniform R 6.5 9.8 gs)"
    "metro ! i = fst (uniform R 0.5 10.0 gm)"
    using p by blast
  moreover have "ls ! i \<in> set ls" using i by simp
  ultimately show ?thesis using e simulate_nth [OF d i] by metis
qed

lemma list_all2_right_member:
  "list_all2 P xs ys \<Longrightarrow> y \<in> set ys \<Longrightarrow> \<exists>x. x \<in> set xs \<and> P x y"
  by (induction rule: list_all2_induct) auto

lemma kept_row:
  assumes "l \<in> set (filter (\<lambda>r. \<not> isna (lat r))
        (map2 set_lat_lon df (fst (apply_get_coords R (map Area_Locality df) g))))"
  shows "\<exists>r. r \<in> set df \<and> resolved R r l"
proof -
  from list_all2_right_member [OF kept_rows [of R df g] assms]
  obtain r where "r \<in> set (filter (\<lambda>r. first_match (Area_Locality r) \<noteq> None) df)"
    and "resolved R r l"
    by blast
  then show ?thesis by auto
qed

lemma enrich_row:
  assumes "enrich R g df = (Inr out, g')" and "e \<in> set out"
  shows "\<exists>r l gk gs gm. r \<in> set df \<and> resolved R r l \<and>
           e = set_simulated l
                 (Rent l / 1500 + of_int (fst (randint R 5 30 gk)),
                  fst (uniform R 6.5 9.8 gs), fst (uniform R 0.5 10.0 gm))"
proof -
  have ne: "df \<noteq> []" using assms(1) by (auto simp: enrich_cases split: if_splits)
  then have "out = fst (simulate R (filter (\<lambda>r. \<not> isna (lat r))
        (map2 set_lat_lon df (fst (apply_get_coords R (map Area_Locality df) g)))))"
    using assms(1) by (simp add: enrich_cases)
  with assms(2) simulate_row obtain l gk gs gm where
    l: "l \<in> set (filter (\<lambda>r. \<not> isna (lat r))
        (map2 set_lat_lon df (fst (apply_get_coords R (map Area_Locality df) g))))"
    and e: "e = set_simulated l
                 (Rent l / 1500 + of_int (fst (randint R 5 30 gk)),
                  fst (uniform R 6.5 9.8 gs), fst (uniform R 0.5 10.0 gm))"
    by blast
  from kept_row [OF l] e show ?thesis by blast
qed

lemma enrich_returns: "df \<noteq> [] \<Longrightarrow> \<exists>out g'. enrich R g df = (Inr out, g')"
  by (simp add: enrich_cases)

lemma truncate_enriched:
  "csv_row.truncate (set_simulated l v) = csv_row.truncate l"
  by (simp add: set_simulated_def csv_row.defs located_row.defs enriched_row.defs)

lemma truncate_simulate:
  "map csv_row.truncate (fst (simulate R ls)) = map csv_row.truncate ls"
proof (rule nth_equalityI)
  show "length (map csv_row.truncate (fst (simulate R ls))) = length (map csv_row.truncate ls)"
    by (simp add: length_simulate)
next
  fix i assume "i < length (map csv_row.truncate (fst (simulate R ls)))"
  then have i: "i < length ls" by (simp add: length_simulate)
  obtain offsets safety metro where d: "seeded_draws R (length ls) = (offsets, safety, metro)"
    by (cases "seeded_draws R (length ls)")
  show "map csv_row.truncate (fst (simulate R ls)) ! i = map csv_row.truncate ls ! i"
    using i by (simp add: length_simulate simulate_nth [OF d i] truncate_enriched)
qed

lemma first_match_None:
  "first_match t \<noteq> None \<longleftrightarrow> (\<exists>entry \<in> set loc_map. contains_ci t (fst entry))"
proof -
  have eq: "(\<lambda>(key, la, lo). contains_ci t key) = (\<lambda>entry. contains_ci t (fst entry))"
    by (simp add: fun_eq_iff)
  have fm: "first_match t = find (\<lambda>entry. contains_ci t (fst entry)) loc_map"
    by (simp only: first_match_def eq)
  show ?thesis unfolding fm find_None_iff by blast
qed

lemma enrich_rows_kept:
  assumes "enrich R g df = (Inr out, g')"
  shows "map csv_row.truncate out =
           filter (\<lambda>r. \<exists>entry \<in> set loc_map. contains_ci (Area_Locality r) (fst entry)) df"
proof -
  have ne: "df \<noteq> []" using assms(1) by (auto simp: enrich_cases split: if_splits)
  then have "out = fst (simulate R (filter (\<lambda>r. \<not> isna (lat r))
        (map2 set_lat_lon df (fst (apply_get_coords R (map Area_Locality df) g)))))"
    using assms(1) by (simp add: enrich_cases)
  then have "map csv_row.truncate out = filter (\<lambda>r. first_match (Area_Locality r) \<noteq> None) df"
    using resolved_truncate [OF kept_rows [of R df g]] by (simp add: truncate_simulate)
  then show ?thesis by (simp only: first_match_None)
qed

subsection \<open>The instances\<close>

lemma counter_contract: "np_contract counter_rng"
proof -
  have "0 \<le> real (g mod 10) / 10 \<and> real (g mod 10) / 10 < 1" for g :: nat
    by simp
  moreover have "low \<le> low + int g mod (high - low) \<and> low + int g mod (high - low) < high"
    if "low < high" for low high :: int and g :: nat
  proof -
    have "0 < high - low" using that by simp
    then have "0 \<le> int g mod (high - low)" "int g mod (high - low) < high - low"
      by (rule pos_mod_sign, rule pos_mod_bound)
    then show ?thesis by linarith
  qed
  ultimately show ?thesis by (simp add: np_contract_def counter_rng_def)
qed

lemma const_contract: "0 \<le> u \<Longrightarrow> u < 1 \<Longrightarrow> np_contract (const_rng u k)"
  by (simp add: np_contract_def const_rng_def)

lemma first_match_exec:
  "first_match t = find (\<lambda>(key, la, lo). py_in (lower key) (lower t)) loc_map"
  by (simp add: first_match_def contains_ci_code)

lemma fm_kor: "first_match ''Koramangala Cross'' = Some (''Koramangala'', 12.9345, 77.6186)"
  unfolding first_match_exec by code_simp

lemma fm_none: "first_match ''Nowhere'' = None"
  unfolding first_match_exec by code_simp

lemma fm_heb: "first_match ''near hebbal lake'' = Some (''Hebbal'', 13.0354, 77.5988)"
  unfolding first_match_exec by code_simp


lemma sample_city_filter:
  "mask_rows sample_csv (map (\<lambda>r. City r = ''Bangalore'') sample_csv) = sample_city"
  unfolding mask_rows_map by (simp add: sample_csv_def sample_city_def listing_def)

lemma sample_areas:
  "map Area_Locality sample_city = [''Koramangala Cross'', ''Nowhere'', ''near hebbal lake'']"
  by (simp add: sample_city_def listing_def)

lemma sample_coords:
  "apply_get_coords counter_rng [''Koramangala Cross'', ''Nowhere'', ''near hebbal lake''] g =
     ([(Fin (12.9345 + (- 0.01 + 0.02 * (real (g mod 10) / 10))),
        Fin (77.6186 + (- 0.01 + 0.02 * (real (Suc g mod 10) / 10)))),
       (NaN, NaN),
       (Fin (13.0354 + (- 0.01 + 0.02 * (real (Suc (Suc g) mod 10) / 10))),
        Fin (77.5988 + (- 0.01 + 0.02 * (real (Suc (Suc (Suc g)) mod 10) / 10))))],
      Suc (Suc (Suc (Suc g))))"
  by (simp add: get_coords_first_match fm_kor fm_none fm_heb uniform_def counter_rng_def)

lemma sample_located:
  "locate counter_rng g sample_city =
     (Inr [set_lat_lon (listing ''Bangalore'' ''Koramangala Cross'' 30000)
             (Fin (12.9345 + (- 0.01 + 0.02 * (real (g mod 10) / 10))),
              Fin (77.6186 + (- 0.01 + 0.02 * (real (Suc g mod 10) / 10)))),
           set_lat_lon (listing ''Bangalore'' ''near hebbal lake'' 15000)
             (Fin (13.0354 + (- 0.01 + 0.02 * (real (Suc (Suc g) mod 10) / 10))),
              Fin (77.5988 + (- 0.01 + 0.02 * (real (Suc (Suc (Suc g)) mod 10) / 10))))],
      Suc (Suc (Suc (Suc g))))"
  unfolding locate_def sample_areas sample_coords
  by (simp add: sample_city_def set_lat_lon_fields)

lemma sample_draws:
  "seeded_draws counter_rng (Suc (Suc 0)) = ([22, 23], [7.82, 8.15], [6.2, 7.15])"
  by (simp add: seeded_draws_def uniform_def counter_rng_def)

lemma sample_enrich: "fst (enrich counter_rng g sample_city) = Inr (sample_enriched g)"
proof -
  have "fst (enrich counter_rng g sample_city) =
     Inr (fst (simulate counter_rng
       [set_lat_lon (listing ''Bangalore'' ''Koramangala Cross'' 30000)
             (Fin (12.9345 + (- 0.01 + 0.02 * (real (g mod 10) / 10))),
              Fin (77.6186 + (- 0.01 + 0.02 * (real (Suc g mod 10) / 10)))),
           set_lat_lon (listing ''Bangalore'' ''near hebbal lake'' 15000)
             (Fin (13.0354 + (- 0.01 + 0.02 * (real (Suc (Suc g) mod 10) / 10))),
              Fin (77.5988 + (- 0.01 + 0.02 * (real (Suc (Suc (Suc g)) mod 10) / 10))))]))"
    by (simp add: enrich_def sample_located split: prod.splits)
  then show ?thesis
    by (simp add: simulate_seeded sample_draws set_lat_lon_fields listing_def sample_enriched_def)
qed

lemma sample_enrich_pair:
  "enrich counter_rng g sample_city = (Inr (sample_enriched g), snd (enrich counter_rng g sample_city))"
  using sample_enrich [of g] by (metis prod.collapse)

lemma sample_load:
  "fst (snd (load_data counter_rng g (Some sample_csv))) = Inr (sample_enriched g)"
  using sample_enrich [of g] by (simp add: load_data_def sample_city_filter split: prod.splits)

lemma sample_enriched_at_3:
  "map lat (sample_enriched 3) = [Fin 12.9305, Fin 13.0354]"
  "map lon (sample_enriched 3) = [Fin 77.6166, Fin 77.6008]"
  "map csv_row.truncate (sample_enriched 3) =
     [listing ''Bangalore'' ''Koramangala Cross'' 30000,
      listing ''Bangalore'' ''near hebbal lake'' 15000]"
  by (simp_all add: sample_enriched_def set_simulated_fields set_lat_lon_fields
      truncate_enriched truncate_set_lat_lon)

subsection \<open>Coordinates\<close>

text \<open>
  C5. Enrichment of a non-empty frame returns; its rows are, in order, exactly the
  input rows whose area text contains a key of the table case-insensitively, and each
  of them has the coordinates of the first matching entry, in table order, plus a
  jitter between -0.01 and 0.01 on each axis. A row whose text contains no key is
  absent.
\<close>

theorem coordinates_resolved:
  assumes "np_contract R" and "df \<noteq> []"
  shows "\<exists>out g'. enrich R g df = (Inr out, g') \<and>
           map csv_row.truncate out =
             filter (\<lambda>r. \<exists>entry \<in> set loc_map. contains_ci (Area_Locality r) (fst entry)) df \<and>
           (\<forall>e \<in> set out. \<exists>key la lo j1 j2.
               first_match (Area_Locality e) = Some (key, la, lo) \<and>
               lat e = Fin (la + j1) \<and> lon e = Fin (lo + j2) \<and>
               - 0.01 \<le> j1 \<and> j1 \<le> 0.01 \<and> - 0.01 \<le> j2 \<and> j2 \<le> 0.01)"
proof -
  from enrich_returns [OF assms(2), of R g] obtain out g' where en: "enrich R g df = (Inr out, g')"
    by blast
  have "\<exists>key la lo j1 j2.
               first_match (Area_Locality e) = Some (key, la, lo) \<and>
               lat e = Fin (la + j1) \<and> lon e = Fin (lo + j2) \<and>
               - 0.01 \<le> j1 \<and> j1 \<le> 0.01 \<and> - 0.01 \<le> j2 \<and> j2 \<le> 0.01"
    if "e \<in> set out" for e
  proof -
    from enrich_row [OF en that] obtain r l v where
      "resolved R r l" and e: "e = set_simulated l v" by blast
    then obtain key la lo g1 g2 where
      fm: "first_match (Area_Locality r) = Some (key, la, lo)" and
      l: "l = set_lat_lon r (Fin (la + fst (uniform R (- 0.01) 0.01 g1)),
                           Fin (lo + fst (uniform R (- 0.01) 0.01 g2)))"
      unfolding resolved_def by blast
    have b1: "- 0.01 \<le> fst (uniform R (- 0.01) 0.01 g1) \<and> fst (uniform R (- 0.01) 0.01 g1) \<le> 0.01"
      using uniform_bounds [OF assms(1), of "- 0.01" "0.01" g1] by simp
    have b2: "- 0.01 \<le> fst (uniform R (- 0.01) 0.01 g2) \<and> fst (uniform R (- 0.01) 0.01 g2) \<le> 0.01"
      using uniform_bounds [OF assms(1), of "- 0.01" "0.01" g2] by simp
    have "first_match (Area_Locality e) = Some (key, la, lo)"
      using fm e l by (simp add: set_simulated_fields set_lat_lon_fields)
    moreover have "lat e = Fin (la + fst (uniform R (- 0.01) 0.01 g1))"
      using e l by (simp add: set_simulated_fields set_lat_lon_fields)
    moreover have "lon e = Fin (lo + fst (uniform R (- 0.01) 0.01 g2))"
      using e l by (simp add: set_simulated_fields set_lat_lon_fields)
    ultimately show ?thesis using b1 b2 by blast
  qed
  with en enrich_rows_kept [OF en] show ?thesis by blast
qed

theorem coordinates_resolved_witness:
  "np_contract counter_rng \<and> sample_city \<noteq> [] \<and>
   (\<exists>out g'. enrich counter_rng 3 sample_city = (Inr out, g') \<and>
      out = sample_enriched 3 \<and>
      map csv_row.truncate out =
        filter (\<lambda>r. \<exists>entry \<in> set loc_map. contains_ci (Area_Locality r) (fst entry))
          sample_city \<and>
      (\<forall>e \<in> set out. \<exists>key la lo j1 j2.
               first_match (Area_Locality e) = Some (key, la, lo) \<and>
               lat e = Fin (la + j1) \<and> lon e = Fin (lo + j2) \<and>
               - 0.01 \<le> j1 \<and> j1 \<le> 0.01 \<and> - 0.01 \<le> j2 \<and> j2 \<le> 0.01)) \<and>
   map csv_row.truncate (sample_enriched 3) =
     [listing ''Bangalore'' ''Koramangala Cross'' 30000,
      listing ''Bangalore'' ''near hebbal lake'' 15000] \<and>
   map lat (sample_enriched 3) = [Fin 12.9305, Fin 13.0354] \<and>
   map lon (sample_enriched 3) = [Fin 77.6166, Fin 77.6008]"
proof -
  have ne: "sample_city \<noteq> []" by (simp add: sample_city_def)
  from coordinates_resolved [OF counter_contract ne, of 3]
  obtain out g' where en: "enrich counter_rng 3 sample_city = (Inr out, g')"
    and rest: "map csv_row.truncate out =
        filter (\<lambda>r. \<exists>entry \<in> set loc_map. contains_ci (Area_Locality r) (fst entry))
          sample_city"
      "\<forall>e \<in> set out. \<exists>key la lo j1 j2.
               first_match (Area_Locality e) = Some (key, la, lo) \<and>
               lat e = Fin (la + j1) \<and> lon e = Fin (lo + j2) \<and>
               - 0.01 \<le> j1 \<and> j1 \<le> 0.01 \<and> - 0.01 \<le> j2 \<and> j2 \<le> 0.01"
    by blast
  have "out = sample_enriched 3" using en sample_enrich [of 3] by simp
  with en rest ne counter_contract sample_enriched_at_3 show ?thesis by blast
qed

subsection \<open>Reproducibility\<close>

text \<open>On a file that is there, \<open>load_data\<close> is enrichment of the rows of the one city.\<close>

lemma load_data_enrich:
  "load_data R g (Some csv) =
     ([], fst (enrich R g (filter (\<lambda>r. City r = ''Bangalore'') csv)),
          snd (enrich R g (filter (\<lambda>r. City r = ''Bangalore'') csv)))"
  by (simp add: load_data_def mask_rows_map split: prod.splits)

text \<open>
  C4. Whatever state the generator is in when \<open>load_data\<close> is called, the result
  is the same in everything but the coordinates: the same error or the same rows with
  the same file columns, amenity density, safety score and transit distance. The
  seed is set after the jitter draws, so only they depend on the state.
\<close>

theorem load_data_reproducible:
  "map_sum id (map non_jitter) (fst (snd (load_data R g file))) =
   map_sum id (map non_jitter) (fst (snd (load_data R g' file)))"
proof (cases "file")
  case None
  then show ?thesis by (simp add: load_data_def)
next
  case (Some csv)
  have "fst (snd (load_data R s (Some csv))) =
          fst (enrich R s (mask_rows csv (map (\<lambda>r. City r = ''Bangalore'') csv)))" for s
    by (simp add: load_data_def split: prod.splits)
  then show ?thesis using Some enrich_reproducible by metis
qed

theorem load_data_reproducible_witness:
  "map_sum id (map non_jitter) (fst (snd (load_data counter_rng 3 (Some sample_csv)))) =
   map_sum id (map non_jitter) (fst (snd (load_data counter_rng 8 (Some sample_csv)))) \<and>
   map_sum id (map lat) (fst (snd (load_data counter_rng 3 (Some sample_csv)))) =
     Inr [Fin 12.9305, Fin 13.0354] \<and>
   map_sum id (map lat) (fst (snd (load_data counter_rng 8 (Some sample_csv)))) =
     Inr [Fin 12.9405, Fin 13.0254] \<and>
   map_sum id (map Cafes) (fst (snd (load_data counter_rng 3 (Some sample_csv)))) =
     Inr [42, 33]"
  using load_data_reproducible [of counter_rng 3 "Some sample_csv" 8]
  by (simp add: sample_load sample_enriched_def set_simulated_fields set_lat_lon_fields)

subsection \<open>Ranges of the simulated columns\<close>

lemma enriched_fields_of_row:
  assumes "np_contract R" and "enrich R g df = (Inr out, g')" and "e \<in> set out"
  shows "\<exists>k::int. 5 \<le> k \<and> k < 30 \<and> Cafes e = Rent e / 1500 + of_int k"
    and "6.5 \<le> Safety_Score e \<and> Safety_Score e \<le> 9.8"
    and "0.5 \<le> Metro_Dist_KM e \<and> Metro_Dist_KM e \<le> 10.0"
proof -
  from enrich_row [OF assms(2,3)] obtain l gk gs gm where
    e: "e = set_simulated l
                 (Rent l / 1500 + of_int (fst (randint R 5 30 gk)),
                  fst (uniform R 6.5 9.8 gs), fst (uniform R 0.5 10.0 gm))"
    by blast
  have "5 \<le> fst (randint R 5 30 gk) \<and> fst (randint R 5 30 gk) < 30"
    using randint_bounds [OF assms(1), of 5 30 gk] by simp
  moreover have "Cafes e = Rent e / 1500 + of_int (fst (randint R 5 30 gk))"
    by (simp add: e set_simulated_fields)
  ultimately show "\<exists>k::int. 5 \<le> k \<and> k < 30 \<and> Cafes e = Rent e / 1500 + of_int k"
    by blast
  show "6.5 \<le> Safety_Score e \<and> Safety_Score e \<le> 9.8"
    using uniform_bounds [OF assms(1), of "6.5" "9.8" gs] by (simp add: e set_simulated_fields)
  show "0.5 \<le> Metro_Dist_KM e \<and> Metro_Dist_KM e \<le> 10.0"
    using uniform_bounds [OF assms(1), of "0.5" "10.0" gm] by (simp add: e set_simulated_fields)
qed

lemma const_enrich_single:
  assumes "first_match (Area_Locality r) = Some (key, la, lo)"
  shows "enrich (const_rng u n) () [r] =
           (Inr [set_simulated
                   (set_lat_lon r (Fin (la + (- 0.01 + 0.02 * u)), Fin (lo + (- 0.01 + 0.02 * u))))
                   (Rent r / 1500 + of_int (if 5 \<le> n \<and> n < 30 then n else 5),
                    6.5 + 3.3 * u, 0.5 + 9.5 * u)], ())"
proof -
  have c: "apply_get_coords (const_rng u n) [Area_Locality r] () =
          ([(Fin (la + (- 0.01 + 0.02 * u)), Fin (lo + (- 0.01 + 0.02 * u)))], ())"
    by (simp add: get_coords_first_match assms uniform_def const_rng_def)
  have l: "locate (const_rng u n) () [r] =
     (Inr [set_lat_lon r (Fin (la + (- 0.01 + 0.02 * u)), Fin (lo + (- 0.01 + 0.02 * u)))], ())"
    unfolding locate_def by (simp add: c set_lat_lon_fields del: apply_get_coords.simps)
  have d: "seeded_draws (const_rng u n) (Suc 0) =
      ([if 5 \<le> n \<and> n < 30 then n else 5], [6.5 + 3.3 * u], [0.5 + 9.5 * u])"
    by (simp add: seeded_draws_def uniform_def const_rng_def)
  have "simulate (const_rng u n) [set_lat_lon r (Fin (la + (- 0.01 + 0.02 * u)), Fin (lo + (- 0.01 + 0.02 * u)))]
      = (fst (simulate (const_rng u n) [set_lat_lon r (Fin (la + (- 0.01 + 0.02 * u)), Fin (lo + (- 0.01 + 0.02 * u)))]), ())"
    by (cases "simulate (const_rng u n) [set_lat_lon r (Fin (la + (- 0.01 + 0.02 * u)), Fin (lo + (- 0.01 + 0.02 * u)))]") simp
  then show ?thesis
    by (simp add: enrich_def l simulate_seeded d set_lat_lon_fields)
qed

text \<open>
  C9, as the code has it. Under a generator that keeps the library's ranges, the
  amenity density of every enriched row is its rent over 1500 plus an integer from 5
  to 29: the upper bound 30 of \<open>randint(5, 30)\<close> is exclusive. Every integer from
  5 to 29 is the offset under some such generator.
\<close>

theorem amenity_offset_range:
  assumes "np_contract R" and "enrich R g df = (Inr out, g')" and "e \<in> set out"
  shows "(\<exists>k::int. 5 \<le> k \<and> k \<le> 29 \<and> Cafes e = Rent e / 1500 + of_int k) \<and>
         (\<forall>n r. 5 \<le> n \<and> n \<le> 29 \<and> first_match (Area_Locality r) \<noteq> None \<longrightarrow>
            (\<exists>e' g''. np_contract (const_rng 0 n) \<and>
               enrich (const_rng 0 n) () [r] = (Inr [e'], g'') \<and>
               Cafes e' = Rent e' / 1500 + of_int n))"
proof
  from enriched_fields_of_row(1) [OF assms] obtain k :: int where
    "5 \<le> k" "k < 30" "Cafes e = Rent e / 1500 + of_int k" by blast
  then have "5 \<le> k \<and> k \<le> 29 \<and> Cafes e = Rent e / 1500 + of_int k" by simp
  then show "\<exists>k::int. 5 \<le> k \<and> k \<le> 29 \<and> Cafes e = Rent e / 1500 + of_int k" ..
next
  show "\<forall>n r. 5 \<le> n \<and> n \<le> 29 \<and> first_match (Area_Locality r) \<noteq> None \<longrightarrow>
            (\<exists>e' g''. np_contract (const_rng 0 n) \<and>
               enrich (const_rng 0 n) () [r] = (Inr [e'], g'') \<and>
               Cafes e' = Rent e' / 1500 + of_int n)"
  proof (intro allI impI)
    fix n :: int and r :: csv_row
    assume a: "5 \<le> n \<and> n \<le> 29 \<and> first_match (Area_Locality r) \<noteq> None"
    then obtain key la lo where fm: "first_match (Area_Locality r) = Some (key, la, lo)"
      by auto
    have "np_contract (const_rng 0 n)" by (simp add: const_contract)
    moreover have "Cafes (set_simulated
                   (set_lat_lon r (Fin (la + (- 0.01 + 0.02 * 0)), Fin (lo + (- 0.01 + 0.02 * 0))))
                   (Rent r / 1500 + of_int (if 5 \<le> n \<and> n < 30 then n else 5),
                    6.5 + 3.3 * 0, 0.5 + 9.5 * 0)) =
       Rent (set_simulated
                   (set_lat_lon r (Fin (la + (- 0.01 + 0.02 * 0)), Fin (lo + (- 0.01 + 0.02 * 0))))
                   (Rent r / 1500 + of_int (if 5 \<le> n \<and> n < 30 then n else 5),
                    6.5 + 3.3 * 0, 0.5 + 9.5 * 0)) / 1500 + of_int n"
      using a by (simp add: set_simulated_fields set_lat_lon_fields)
    ultimately show "\<exists>e' g''. np_contract (const_rng 0 n) \<and>
               enrich (const_rng 0 n) () [r] = (Inr [e'], g'') \<and>
               Cafes e' = Rent e' / 1500 + of_int n"
      using const_enrich_single [OF fm, of 0 n] by blast
  qed
qed

theorem amenity_offset_range_witness:
  "np_contract counter_rng \<and>
   enrich counter_rng 3 sample_city =
     (Inr (sample_enriched 3), snd (enrich counter_rng 3 sample_city)) \<and>
   hd (sample_enriched 3) \<in> set (sample_enriched 3) \<and>
   (\<exists>k::int. 5 \<le> k \<and> k \<le> 29 \<and>
      Cafes (hd (sample_enriched 3)) = Rent (hd (sample_enriched 3)) / 1500 + of_int k) \<and>
   Cafes (hd (sample_enriched 3)) = 42 \<and> Rent (hd (sample_enriched 3)) = 30000 \<and>
   (\<exists>e' g''. np_contract (const_rng 0 29) \<and>
      enrich (const_rng 0 29) () [listing ''Bangalore'' ''near hebbal lake'' 15000] = (Inr [e'], g'') \<and>
      Cafes e' = Rent e' / 1500 + of_int 29)"
proof -
  have m: "hd (sample_enriched 3) \<in> set (sample_enriched 3)"
    by (simp add: sample_enriched_def)
  have f: "first_match (Area_Locality (listing ''Bangalore'' ''near hebbal lake'' 15000)) \<noteq> None"
    by (simp add: listing_def fm_heb)
  note t = amenity_offset_range [OF counter_contract sample_enrich_pair [of 3] m]
  from t have a: "\<exists>k::int. 5 \<le> k \<and> k \<le> 29 \<and>
      Cafes (hd (sample_enriched 3)) = Rent (hd (sample_enriched 3)) / 1500 + of_int k"
    by blast
  from t have "(5::int) \<le> 29 \<and> (29::int) \<le> 29 \<and>
      first_match (Area_Locality (listing ''Bangalore'' ''near hebbal lake'' 15000)) \<noteq> None \<longrightarrow>
      (\<exists>e' g''. np_contract (const_rng 0 29) \<and>
      enrich (const_rng 0 29) () [listing ''Bangalore'' ''near hebbal lake'' 15000] = (Inr [e'], g'') \<and>
      Cafes e' = Rent e' / 1500 + of_int 29)"
    by blast
  moreover have "(5::int) \<le> 29 \<and> (29::int) \<le> 29 \<and>
      first_match (Area_Locality (listing ''Bangalore'' ''near hebbal lake'' 15000)) \<noteq> None"
    using f by simp
  ultimately have b: "\<exists>e' g''. np_contract (const_rng 0 29) \<and>
      enrich (const_rng 0 29) () [listing ''Bangalore'' ''near hebbal lake'' 15000] = (Inr [e'], g'') \<and>
      Cafes e' = Rent e' / 1500 + of_int 29"
    by (rule mp)
  have c: "Cafes (hd (sample_enriched 3)) = 42 \<and> Rent (hd (sample_enriched 3)) = 30000"
    by (simp add: sample_enriched_def set_simulated_fields set_lat_lon_fields listing_def)
  from counter_contract sample_enrich_pair [of 3] m a b c show ?thesis by blast
qed

text \<open>The offset 30 never occurs, whatever the generator, so long as it keeps its ranges.\<close>

theorem offset_thirty_impossible:
  "\<not> (\<exists>(R :: nat np_random) g df out g' e.
        np_contract R \<and> enrich R g df = (Inr out, g') \<and> e \<in> set out \<and>
        Cafes e = Rent e / 1500 + of_int 30)"
proof
  assume "\<exists>(R :: nat np_random) g df out g' e.
        np_contract R \<and> enrich R g df = (Inr out, g') \<and> e \<in> set out \<and>
        Cafes e = Rent e / 1500 + of_int 30"
  then obtain R :: "nat np_random" and g df out g' e where
    h: "np_contract R" "enrich R g df = (Inr out, g')" "e \<in> set out"
    and c: "Cafes e = Rent e / 1500 + of_int 30" by blast
  from enriched_fields_of_row(1) [OF h] obtain k :: int where
    k: "5 \<le> k" "k < 30" "Cafes e = Rent e / 1500 + of_int k" by blast
  from c k(3) have "(of_int k :: real) = of_int 30" by simp
  then have "k = 30" by (simp only: of_int_eq_iff)
  with k(2) show False by simp
qed

text \<open>
  C10. Under a generator that keeps the library's ranges, every enriched row has a
  safety score between 6.5 and 9.8; so with a minimum safety of at most 6.5 the
  preference filter keeps exactly the rows within the budget.
\<close>

theorem safety_floor:
  assumes "np_contract R" and "enrich R g df = (Inr out, g')"
  shows "(\<forall>e \<in> set out. 6.5 \<le> Safety_Score e \<and> Safety_Score e \<le> 9.8) \<and>
         (t \<le> 6.5 \<longrightarrow>
            preference_filter max_rent t out = filter (\<lambda>r. Rent r \<le> of_int max_rent) out)"
proof
  show s: "\<forall>e \<in> set out. 6.5 \<le> Safety_Score e \<and> Safety_Score e \<le> 9.8"
    using enriched_fields_of_row(2) [OF assms] by blast
  show "t \<le> 6.5 \<longrightarrow>
            preference_filter max_rent t out = filter (\<lambda>r. Rent r \<le> of_int max_rent) out"
  proof
    assume t: "t \<le> 6.5"
    have "\<forall>e \<in> set out. t \<le> Safety_Score e" using s t by fastforce
    then show "preference_filter max_rent t out = filter (\<lambda>r. Rent r \<le> of_int max_rent) out"
      unfolding preference_filter_eq by (intro filter_cong) auto
  qed
qed

theorem safety_floor_witness:
  "np_contract counter_rng \<and>
   enrich counter_rng 3 sample_city =
     (Inr (sample_enriched 3), snd (enrich counter_rng 3 sample_city)) \<and>
   (1.0::real) \<le> 6.5 \<and>
   map Safety_Score (sample_enriched 3) = [7.82, 8.15] \<and>
   preference_filter 20000 1.0 (sample_enriched 3) =
     filter (\<lambda>r. Rent r \<le> of_int 20000) (sample_enriched 3) \<and>
   map Area_Locality (preference_filter 20000 1.0 (sample_enriched 3)) = [''near hebbal lake'']"
proof -
  note t = safety_floor [OF counter_contract sample_enrich_pair [of 3], of "1.0" 20000]
  then have a: "preference_filter 20000 1.0 (sample_enriched 3) =
     filter (\<lambda>r. Rent r \<le> of_int 20000) (sample_enriched 3)" by simp
  have b: "map Safety_Score (sample_enriched 3) = [7.82, 8.15]"
    by (simp add: sample_enriched_def set_simulated_fields)
  have c: "map Area_Locality (filter (\<lambda>r. Rent r \<le> of_int 20000) (sample_enriched 3)) =
      [''near hebbal lake'']"
    by (simp add: sample_enriched_def set_simulated_fields set_lat_lon_fields listing_def)
  from counter_contract sample_enrich_pair [of 3] a b c show ?thesis by simp
qed

subsection \<open>The value score\<close>

lemma value_score_eq:
  "value_score wc wm r =
     fdiv (fadd (fmul (Fin (Cafes r)) (Fin wc))
                (fmul (fmul (fdiv (Fin 1) (Fin (Metro_Dist_KM r))) (Fin 100)) (Fin wm)))
          (fdiv (Fin (Rent r)) (Fin 1000))"
  by (simp add: value_score_def value_score_column_def)

lemma value_score_column_map: "value_score_column wc wm df = map (value_score wc wm) df"
  by (induction df) (simp_all add: value_score_column_def value_score_def)

lemma add_value_score_map:
  "add_value_score wc wm df = map (\<lambda>r. set_value_score r (value_score wc wm r)) df"
proof -
  have "map2 f df (map h df) = map (\<lambda>r. f r (h r)) df" for f :: "enriched_row \<Rightarrow> fnum \<Rightarrow> scored_row" and h
    by (induction df) simp_all
  then show ?thesis by (simp add: add_value_score_def value_score_column_map)
qed

lemma value_score_finite:
  assumes "Metro_Dist_KM r \<noteq> 0" and "Rent r \<noteq> 0"
  shows "value_score wc wm r =
           Fin ((Cafes r * wc + (1 / Metro_Dist_KM r) * 100 * wm) / (Rent r / 1000))"
  using assms by (simp add: value_score_eq)

lemma value_score_zero_distance:
  assumes "Metro_Dist_KM r = 0"
  shows "\<not> is_finite (value_score wc wm r)"
proof -
  consider "wm = 0" | "0 < wm" | "wm < 0" by linarith
  then show ?thesis
  proof cases
    case 1
    then show ?thesis using assms by (simp add: value_score_eq)
  next
    case 2
    then show ?thesis using assms by (simp add: value_score_eq)
  next
    case 3
    then show ?thesis using assms by (simp add: value_score_eq)
  qed
qed

lemma set_value_score_fields:
  "Value_Score (set_value_score r v) = v"
  "enriched_row.truncate (set_value_score r v) = r"
  "Area_Locality (set_value_score r v) = Area_Locality r"
  "Rent (set_value_score r v) = Rent r"
  by (simp_all add: set_value_score_def enriched_row.defs scored_row.defs)

text \<open>
  C1. The scored frame has the rows of the filtered frame, in the same order, each
  with one more column, the value score: the formula of lines 93 to 96 in the
  arithmetic of the columns. Where a row's transit distance and rent are not zero,
  that is the number
  (amenity density * amenity weight + (1 / distance) * 100 * transit weight) / (rent / 1000).
  At amenity density 20, distance 2.0, rent 30000 and weights 0.5 and 0.8 that is
  50 / 30, as evaluated below.
\<close>

theorem value_score_formula:
  assumes "i < length (preference_filter max_rent safety df)"
    and "r = preference_filter max_rent safety df ! i"
  shows "length (add_value_score wc wm (preference_filter max_rent safety df)) =
           length (preference_filter max_rent safety df) \<and>
         enriched_row.truncate (add_value_score wc wm (preference_filter max_rent safety df) ! i) = r \<and>
         Value_Score (add_value_score wc wm (preference_filter max_rent safety df) ! i) =
           fdiv (fadd (fmul (Fin (Cafes r)) (Fin wc))
                      (fmul (fmul (fdiv (Fin 1) (Fin (Metro_Dist_KM r))) (Fin 100)) (Fin wm)))
                (fdiv (Fin (Rent r)) (Fin 1000)) \<and>
         (Metro_Dist_KM r \<noteq> 0 \<and> Rent r \<noteq> 0 \<longrightarrow>
            Value_Score (add_value_score wc wm (preference_filter max_rent safety df) ! i) =
              Fin ((Cafes r * wc + (1 / Metro_Dist_KM r) * 100 * wm) / (Rent r / 1000)))"
proof -
  have v: "Value_Score (add_value_score wc wm (preference_filter max_rent safety df) ! i) =
      value_score wc wm r"
    and t: "enriched_row.truncate (add_value_score wc wm (preference_filter max_rent safety df) ! i) = r"
    using assms by (simp_all add: add_value_score_map set_value_score_fields)
  have l: "length (add_value_score wc wm (preference_filter max_rent safety df)) =
           length (preference_filter max_rent safety df)"
    by (simp add: add_value_score_map)
  have f: "Metro_Dist_KM r \<noteq> 0 \<and> Rent r \<noteq> 0 \<longrightarrow>
      value_score wc wm r =
        Fin ((Cafes r * wc + (1 / Metro_Dist_KM r) * 100 * wm) / (Rent r / 1000))"
    using value_score_finite by blast
  show ?thesis using l t f by (simp only: v value_score_eq)
qed

lemma scenario_fields:
  "Cafes scenario_row = 20" "Metro_Dist_KM scenario_row = 2" "Rent scenario_row = 30000"
  "Safety_Score scenario_row = 8" "Area_Locality scenario_row = ''Koramangala Cross''"
  by (simp_all add: scenario_row_def enriched_listing_def set_simulated_fields
      set_lat_lon_fields listing_def)

lemma scenario_filter:
  "s \<le> 8 \<Longrightarrow> preference_filter 35000 s [scenario_row] = [scenario_row]"
  by (simp add: preference_filter_eq scenario_fields)

theorem value_score_formula_witness:
  "0 < length (preference_filter 35000 7.0 [scenario_row]) \<and>
   scenario_row = preference_filter 35000 7.0 [scenario_row] ! 0 \<and>
   Metro_Dist_KM scenario_row \<noteq> 0 \<and> Rent scenario_row \<noteq> 0 \<and>
   Cafes scenario_row = 20 \<and> Metro_Dist_KM scenario_row = 2.0 \<and> Rent scenario_row = 30000 \<and>
   length (add_value_score 0.5 0.8 (preference_filter 35000 7.0 [scenario_row])) = 1 \<and>
   enriched_row.truncate (add_value_score 0.5 0.8 (preference_filter 35000 7.0 [scenario_row]) ! 0)
     = scenario_row \<and>
   Value_Score (add_value_score 0.5 0.8 (preference_filter 35000 7.0 [scenario_row]) ! 0) =
     Fin (50 / 30)"
proof -
  have h: "0 < length (preference_filter 35000 7.0 [scenario_row])"
    "scenario_row = preference_filter 35000 7.0 [scenario_row] ! 0"
    "Metro_Dist_KM scenario_row \<noteq> 0" "Rent scenario_row \<noteq> 0"
    by (simp_all add: preference_filter_eq scenario_fields)
  from value_score_formula [OF h(1,2), of "0.5" "0.8"] h show ?thesis
    by (simp add: preference_filter_eq scenario_fields)
qed

text \<open>
  C6. For a row with positive rent, non-negative amenity density and positive transit
  distance, the value score does not decrease when the amenity weight or the transit
  weight grows, and does not increase when the rent grows. The last part is for
  non-negative weights, which is what the two sliders of 0.0 to 1.0 return.
\<close>

theorem value_score_monotone:
  assumes "0 < Rent r" and "0 \<le> Cafes r" and "0 < Metro_Dist_KM r"
  shows "(wc \<le> wc' \<longrightarrow> fle (value_score wc wm r) (value_score wc' wm r)) \<and>
         (wm \<le> wm' \<longrightarrow> fle (value_score wc wm r) (value_score wc wm' r)) \<and>
         (0 \<le> wc \<and> 0 \<le> wm \<and> Rent r \<le> p' \<longrightarrow>
            fle (value_score wc wm (r\<lparr>Rent := p'\<rparr>)) (value_score wc wm r))"
proof (intro conjI impI)
  have d: "Metro_Dist_KM r \<noteq> 0" and p: "Rent r \<noteq> 0" using assms by simp_all
  have pos: "0 \<le> Rent r / 1000" using assms(1) by simp
  {
    assume "wc \<le> wc'"
    then have "Cafes r * wc \<le> Cafes r * wc'" using assms(2) by (rule mult_left_mono)
    then have "(Cafes r * wc + (1 / Metro_Dist_KM r) * 100 * wm) / (Rent r / 1000)
             \<le> (Cafes r * wc' + (1 / Metro_Dist_KM r) * 100 * wm) / (Rent r / 1000)"
      using pos by (intro divide_right_mono) simp_all
    then show "fle (value_score wc wm r) (value_score wc' wm r)"
      by (simp only: value_score_finite [OF d p] fle.simps)
  }
  {
    assume "wm \<le> wm'"
    moreover have "0 \<le> (1 / Metro_Dist_KM r) * 100" using assms(3) by simp
    ultimately have "(1 / Metro_Dist_KM r) * 100 * wm \<le> (1 / Metro_Dist_KM r) * 100 * wm'"
      by (rule mult_left_mono)
    then have "(Cafes r * wc + (1 / Metro_Dist_KM r) * 100 * wm) / (Rent r / 1000)
             \<le> (Cafes r * wc + (1 / Metro_Dist_KM r) * 100 * wm') / (Rent r / 1000)"
      using pos by (intro divide_right_mono) simp_all
    then show "fle (value_score wc wm r) (value_score wc wm' r)"
      by (simp only: value_score_finite [OF d p] fle.simps)
  }
  {
    assume a: "0 \<le> wc \<and> 0 \<le> wm \<and> Rent r \<le> p'"
    then have p': "0 < p'" using assms(1) by linarith
    have n: "0 \<le> Cafes r * wc + (1 / Metro_Dist_KM r) * 100 * wm"
      using a assms(2,3) by simp
    have "(Cafes r * wc + (1 / Metro_Dist_KM r) * 100 * wm) / (p' / 1000)
            \<le> (Cafes r * wc + (1 / Metro_Dist_KM r) * 100 * wm) / (Rent r / 1000)"
      using a n assms(1) p' by (intro divide_left_mono) simp_all
    moreover have "value_score wc wm (r\<lparr>Rent := p'\<rparr>) =
        Fin ((Cafes r * wc + (1 / Metro_Dist_KM r) * 100 * wm) / (p' / 1000))"
      using d p' by (simp add: value_score_eq)
    ultimately show "fle (value_score wc wm (r\<lparr>Rent := p'\<rparr>)) (value_score wc wm r)"
      by (simp only: value_score_finite [OF d p] fle.simps)
  }
qed

lemma slider_weights_nonneg: "slider_ranges p \<Longrightarrow> 0 \<le> w_cafe p \<and> 0 \<le> w_metro p"
  by (simp add: slider_ranges_def)

lemma default_prefs_in_range: "slider_ranges default_prefs"
  by (simp add: slider_ranges_def default_prefs_def)

theorem value_score_monotone_witness:
  "0 < Rent scenario_row \<and> 0 \<le> Cafes scenario_row \<and> 0 < Metro_Dist_KM scenario_row \<and>
   fle (value_score 0.5 0.8 scenario_row) (value_score 0.9 0.8 scenario_row) \<and>
   fle (value_score 0.5 0.2 scenario_row) (value_score 0.5 0.8 scenario_row) \<and>
   fle (value_score 0.5 0.8 (scenario_row\<lparr>Rent := 45000\<rparr>)) (value_score 0.5 0.8 scenario_row) \<and>
   value_score 0.5 0.8 scenario_row = Fin (5 / 3) \<and>
   value_score 0.9 0.8 scenario_row = Fin (29 / 15) \<and>
   value_score 0.5 0.2 scenario_row = Fin (2 / 3) \<and>
   value_score 0.5 0.8 (scenario_row\<lparr>Rent := 45000\<rparr>) = Fin (10 / 9)"
proof -
  have h: "0 < Rent scenario_row" "0 \<le> Cafes scenario_row" "0 < Metro_Dist_KM scenario_row"
    by (simp_all add: scenario_fields)
  have v: "value_score 0.5 0.8 scenario_row = Fin (5 / 3)"
    "value_score 0.9 0.8 scenario_row = Fin (29 / 15)"
    "value_score 0.5 0.2 scenario_row = Fin (2 / 3)"
    "value_score 0.5 0.8 (scenario_row\<lparr>Rent := 45000\<rparr>) = Fin (10 / 9)"
    by (simp_all add: value_score_eq scenario_fields)
  from value_score_monotone [OF h, of "0.5" "0.9" "0.8" "0.8" 45000]
       value_score_monotone [OF h, of "0.5" "0.5" "0.2" "0.8" 45000]
  have "fle (value_score 0.5 0.8 scenario_row) (value_score 0.9 0.8 scenario_row)"
    "fle (value_score 0.5 0.2 scenario_row) (value_score 0.5 0.8 scenario_row)"
    "fle (value_score 0.5 0.8 (scenario_row\<lparr>Rent := 45000\<rparr>)) (value_score 0.5 0.8 scenario_row)"
    by (simp_all add: scenario_fields)
  with h v show ?thesis by simp
qed

lemma zero_distance_fields:
  "Cafes zero_distance_row = 20" "Metro_Dist_KM zero_distance_row = 0"
  "Rent zero_distance_row = 30000"
  by (simp_all add: zero_distance_row_def enriched_listing_def set_simulated_fields
      set_lat_lon_fields listing_def)

text \<open>
  C8, as the code has it. Under a generator that keeps the library's ranges, every
  enriched row has a transit distance of at least 0.5, so its inverse is an ordinary
  quotient, and its value score is finite when its rent is not zero. The scorer has no
  case of its own for a transit distance of 0: the score of such a row is not finite.
\<close>

theorem transit_distance_guard:
  assumes "np_contract R" and "enrich R g df = (Inr out, g')" and "e \<in> set out"
  shows "0.5 \<le> Metro_Dist_KM e \<and>
         fdiv (Fin 1) (Fin (Metro_Dist_KM e)) = Fin (1 / Metro_Dist_KM e) \<and>
         (Rent e \<noteq> 0 \<longrightarrow> is_finite (value_score wc wm e)) \<and>
         (Metro_Dist_KM r = 0 \<longrightarrow> \<not> is_finite (value_score wc wm r))"
proof -
  have m: "0.5 \<le> Metro_Dist_KM e" using enriched_fields_of_row(3) [OF assms] by simp
  then have nz: "Metro_Dist_KM e \<noteq> 0" by simp
  then have "fdiv (Fin 1) (Fin (Metro_Dist_KM e)) = Fin (1 / Metro_Dist_KM e)" by simp
  moreover have "Rent e \<noteq> 0 \<longrightarrow> is_finite (value_score wc wm e)"
    using nz by (simp add: value_score_finite)
  moreover have "Metro_Dist_KM r = 0 \<longrightarrow> \<not> is_finite (value_score wc wm r)"
    using value_score_zero_distance by blast
  ultimately show ?thesis using m by blast
qed

theorem transit_distance_guard_witness:
  "np_contract counter_rng \<and>
   enrich counter_rng 3 sample_city =
     (Inr (sample_enriched 3), snd (enrich counter_rng 3 sample_city)) \<and>
   hd (sample_enriched 3) \<in> set (sample_enriched 3) \<and>
   Metro_Dist_KM (hd (sample_enriched 3)) = 6.2 \<and>
   0.5 \<le> Metro_Dist_KM (hd (sample_enriched 3)) \<and>
   fdiv (Fin 1) (Fin (Metro_Dist_KM (hd (sample_enriched 3)))) = Fin (5 / 31) \<and>
   Rent (hd (sample_enriched 3)) \<noteq> 0 \<and>
   is_finite (value_score 0.5 0.8 (hd (sample_enriched 3))) \<and>
   Metro_Dist_KM zero_distance_row = 0 \<and>
   \<not> is_finite (value_score 0.5 0.8 zero_distance_row)"
proof -
  have m: "hd (sample_enriched 3) \<in> set (sample_enriched 3)"
    by (simp add: sample_enriched_def)
  have f: "Metro_Dist_KM (hd (sample_enriched 3)) = 6.2" "Rent (hd (sample_enriched 3)) \<noteq> 0"
    by (simp_all add: sample_enriched_def set_simulated_fields set_lat_lon_fields listing_def)
  note t = transit_distance_guard [OF counter_contract sample_enrich_pair [of 3] m,
      of "0.5" "0.8" zero_distance_row]
  from t have a: "0.5 \<le> Metro_Dist_KM (hd (sample_enriched 3))" by (rule conjunct1)
  have b: "fdiv (Fin 1) (Fin (Metro_Dist_KM (hd (sample_enriched 3)))) = Fin (5 / 31)"
    by (simp add: sample_enriched_def set_simulated_fields)
  from t f(2) have c: "is_finite (value_score 0.5 0.8 (hd (sample_enriched 3)))" by blast
  from t zero_distance_fields(2)
  have d: "\<not> is_finite (value_score 0.5 0.8 zero_distance_row)" by blast
  from counter_contract sample_enrich_pair [of 3] m f a b c d zero_distance_fields(2)
  show ?thesis by blast
qed

text \<open>
  At transit distance 0 the score is NaN with a transit weight of 0 and infinite with
  a transit weight of 0.8.
\<close>

theorem zero_distance_score_not_numeric:
  "Metro_Dist_KM zero_distance_row = 0 \<and>
   value_score 0.5 0 zero_distance_row = NaN \<and>
   value_score 0.5 0.8 zero_distance_row = PInf"
  by (simp add: value_score_eq zero_distance_fields)

subsection \<open>A missing input file\<close>

text \<open>
  C7, as the code has it. When the input file is absent, \<open>load_data\<close> shows the
  error message and returns an empty frame; the script then sets the page
  configuration, shows the title and the introduction, and stops: no sidebar, no
  filter, no score.
\<close>

theorem missing_file_stops:
  "load_data R g None = ([StError CsvNotFound], Inr [], g) \<and>
   app R srt g None p =
     \<lparr>ui = [StError CsvNotFound, SetPageConfig, StTitle, StMarkdown],
      outcome = Stopped, filtered_df = None, ranked = None\<rparr>"
  by (simp add: app_def load_data_def)

theorem missing_file_stops_witness:
  "ui (app counter_rng stable_sort_values 3 None default_prefs) =
     [StError CsvNotFound, SetPageConfig, StTitle, StMarkdown] \<and>
   outcome (app counter_rng stable_sort_values 3 None default_prefs) = Stopped \<and>
   filtered_df (app counter_rng stable_sort_values 3 None default_prefs) = None \<and>
   ranked (app counter_rng stable_sort_values 3 None default_prefs) = None"
  using missing_file_stops [of counter_rng 3 stable_sort_values default_prefs] by simp

text \<open>The title and the introduction are shown after the error message.\<close>

theorem title_shown_after_missing_file:
  "ui (app counter_rng stable_sort_values 3 None default_prefs) \<noteq> [StError CsvNotFound] \<and>
   StTitle \<in> set (ui (app counter_rng stable_sort_values 3 None default_prefs)) \<and>
   StMarkdown \<in> set (ui (app counter_rng stable_sort_values 3 None default_prefs))"
  by (simp add: app_def load_data_def)

subsection \<open>The preference filter on the sample rows\<close>

theorem preference_filter_subset_witness:
  "(scenario_row \<in> set (preference_filter 35000 7.0 (tie_rows @ [scenario_row]))) =
     (scenario_row \<in> set (tie_rows @ [scenario_row]) \<and>
      Rent scenario_row \<le> of_int 35000 \<and> 7.0 \<le> Safety_Score scenario_row) \<and>
   preference_filter 35000 7.0
     (sample_enriched 3 @ tie_rows @
        [enriched_listing ''Hebbal'' 40000 20 9.0 2.0,
         enriched_listing ''Hebbal'' 20000 20 6.6 2.0]) =
     sample_enriched 3 @ tie_rows"
  using preference_filter_subset [of scenario_row 35000 "7.0" "tie_rows @ [scenario_row]"]
  by (simp add: preference_filter_eq sample_enriched_def tie_rows_def enriched_listing_def
      set_simulated_fields set_lat_lon_fields listing_def)

end
